theory Spec2Isabelle
  imports Main "HOL-Library.Word" "HOL-Library.Sublist"
begin

section \<open>JavaScript strings\<close>

text \<open>
  A JavaScript string is a sequence of UTF-16 code units. The literals of the source are
  ASCII except for the snake emoji U+1F40D, which is the surrogate pair D83D DC0D.
\<close>

type_synonym jschar = "16 word"
type_synonym jsstring = "jschar list"

definition js :: "string \<Rightarrow> jsstring" where
  "js s = map (\<lambda>c. of_char c) s"

definition snake :: jsstring where
  "snake = [0xD83D, 0xDC0D]"

text \<open>
  \<open>String.prototype.trim\<close> removes leading and trailing WhiteSpace and LineTerminator
  code units: TAB, LF, VT, FF, CR, SP, NBSP, the Unicode space separators, LS, PS and
  ZWNBSP.
\<close>

definition isWhiteSpace :: "jschar \<Rightarrow> bool" where
  "isWhiteSpace c \<longleftrightarrow>
     c = 0x0009 \<or> c = 0x000A \<or> c = 0x000B \<or> c = 0x000C \<or> c = 0x000D \<or> c = 0x0020 \<or>
     c = 0x00A0 \<or> c = 0x1680 \<or> (0x2000 \<le> c \<and> c \<le> 0x200A) \<or> c = 0x2028 \<or>
     c = 0x2029 \<or> c = 0x202F \<or> c = 0x205F \<or> c = 0x3000 \<or> c = 0xFEFF"

definition trim :: "jsstring \<Rightarrow> jsstring" where
  "trim s = rev (dropWhile isWhiteSpace (rev (dropWhile isWhiteSpace s)))"

text \<open>
  \<open>x || ''\<close> on a value that is a string or \<open>undefined\<close>: \<open>undefined\<close> and the empty
  string are falsy, every other string is returned as it is.
\<close>

definition or_empty :: "jsstring option \<Rightarrow> jsstring" where
  "or_empty x = (case x of None \<Rightarrow> [] | Some s \<Rightarrow> (if s = [] then [] else s))"

text \<open>
  \<open>Date.now()\<close> is an integral number of milliseconds, of magnitude far below
  \<open>10^21\<close>, so its interpolation into a template literal is its decimal numeral.
\<close>

fun digitsOf :: "nat \<Rightarrow> jsstring" where
  "digitsOf n =
     (if n < 10 then [of_nat (48 + n)] else digitsOf (n div 10) @ [of_nat (48 + n mod 10)])"

declare digitsOf.simps [simp del]

definition Number_toString :: "int \<Rightarrow> jsstring" where
  "Number_toString i = (if i < 0 then js ''-'' @ digitsOf (nat (- i)) else digitsOf (nat i))"

section \<open>The host's editor widget\<close>

text \<open>
  Modelled from the spec: the host's text model (\<open>ITextModel\<close>, made by
  \<open>IModelService.createModel\<close> from a text, a language and a resource) is not among
  the sources.
\<close>

record ITextModel =
  modelValue :: jsstring
  languageId :: jsstring
  uri :: jsstring

text \<open>
  Modelled from the spec: the host's editor widget (\<open>CodeEditorWidget\<close>, an
  \<open>ICodeEditor\<close>) is not among the sources. The spec gives its state as the text
  buffer, a mutable string that the widget owns; the keyboard focus is kept beside it.
  A new widget has an empty buffer, \<open>setModel\<close> loads the model's text, \<open>setValue\<close>
  stores a text and \<open>getValue\<close> reads it back.
\<close>

record ICodeEditor =
  buffer :: jsstring
  hasFocus :: bool

text \<open>Modelled from the spec: a widget just created by the host holds no text.\<close>

definition CodeEditorWidget_new :: ICodeEditor where
  "CodeEditorWidget_new = \<lparr>buffer = [], hasFocus = False\<rparr>"

text \<open>Modelled from the spec: attaching a model loads its text into the buffer.\<close>

definition ICodeEditor_setModel :: "ITextModel \<Rightarrow> ICodeEditor \<Rightarrow> ICodeEditor" where
  "ICodeEditor_setModel m e = e\<lparr>buffer := modelValue m\<rparr>"

text \<open>Modelled from the spec: the widget's \<open>getValue\<close> reads the buffer.\<close>

definition ICodeEditor_getValue :: "ICodeEditor \<Rightarrow> jsstring" where
  "ICodeEditor_getValue e = buffer e"

text \<open>Modelled from the spec: the widget's \<open>setValue\<close> replaces the buffer.\<close>

definition ICodeEditor_setValue :: "jsstring \<Rightarrow> ICodeEditor \<Rightarrow> ICodeEditor" where
  "ICodeEditor_setValue v e = e\<lparr>buffer := v\<rparr>"

text \<open>Modelled from the spec: the widget's \<open>focus\<close> takes the keyboard focus.\<close>

definition ICodeEditor_focus :: "ICodeEditor \<Rightarrow> ICodeEditor" where
  "ICodeEditor_focus e = e\<lparr>hasFocus := True\<rparr>"

section \<open>The pane\<close>

datatype HTMLElement = Element string

text \<open>
  The fields of \<open>MonacoInputViewPane\<close>, without their leading underscore. The source's
  \<open>_textModel\<close> is a second reference to the model handed to the editor; the pane never
  reads through it, so the field holds the model's resource and the text lives in the
  editor.
\<close>

record MonacoInputViewPane =
  editor :: "ICodeEditor option"
  editorContainer :: "HTMLElement option"
  textModel :: "jsstring option"

definition MonacoInputViewPane_new :: MonacoInputViewPane where
  "MonacoInputViewPane_new = \<lparr>editor = None, editorContainer = None, textModel = None\<rparr>"

definition createEditor :: "MonacoInputViewPane \<Rightarrow> MonacoInputViewPane" where
  "createEditor p =
     (case editorContainer p of
        None \<Rightarrow> p
      | Some container \<Rightarrow>
          (let m = \<lparr>modelValue =
                      js ''# Type your Python code here\<newline>print(\"Hello from Python!\")\<newline>'',
                    languageId = js ''python'',
                    uri = js ''inmemory:/monaco-python.py''\<rparr>;
               e = CodeEditorWidget_new
           in p\<lparr>textModel := Some (uri m), editor := Some (ICodeEditor_setModel m e)\<rparr>))"

text \<open>
  \<open>renderBody\<close> builds the toolbar with the run button, makes the editor container and
  creates the editor; the button's click listener is the event \<open>Click\<close> below. The
  registrations for disposal (\<open>_register\<close>) have no effect on the text or on the
  commands and are left out.
\<close>

definition renderBody :: "MonacoInputViewPane \<Rightarrow> MonacoInputViewPane" where
  "renderBody p = createEditor (p\<lparr>editorContainer := Some (Element ''.monaco-input-container'')\<rparr>)"

definition getValue :: "MonacoInputViewPane \<Rightarrow> jsstring" where
  "getValue p = or_empty (map_option ICodeEditor_getValue (editor p))"

definition setValue :: "jsstring \<Rightarrow> MonacoInputViewPane \<Rightarrow> MonacoInputViewPane" where
  "setValue v p = p\<lparr>editor := map_option (ICodeEditor_setValue v) (editor p)\<rparr>"

definition clearContent :: "MonacoInputViewPane \<Rightarrow> MonacoInputViewPane" where
  "clearContent p =
     (let p1 = p\<lparr>editor :=
                 map_option
                   (ICodeEditor_setValue
                      (js ''# Type your Python code here\<newline>print(\"Hello from Python!\")\<newline>''))
                   (editor p)\<rparr>
      in p1\<lparr>editor := map_option ICodeEditor_focus (editor p1)\<rparr>)"

section \<open>The workbench: command bus, timers, views service, console\<close>

text \<open>
  A call \<open>commandService.executeCommand(id, ...args)\<close>; an argument is an object
  literal, a list of properties.
\<close>

type_synonym jsobject = "(string \<times> jsstring) list"

record command =
  commandId :: jsstring
  args :: "jsobject list"

text \<open>
  The arrow function handed to \<open>setTimeout\<close> in \<open>runPython\<close>, as the closure of the
  two variables it captures.
\<close>

datatype callback = RunPythonTimeout jsstring jsstring

record timer =
  due :: nat
  handler :: callback

text \<open>
  What the pane and its actions reach of the workbench: the pane itself, whether the views
  service has it as the active view, the commands executed so far, the pending timers with
  the clock in milliseconds, and the lines logged to the console.
\<close>

record workbench =
  pane :: MonacoInputViewPane
  activeView :: bool
  commands :: "command list"
  timers :: "timer list"
  clock :: nat
  console :: "jsstring list list"

definition executeCommand :: "jsstring \<Rightarrow> jsobject list \<Rightarrow> workbench \<Rightarrow> workbench" where
  "executeCommand c as w = w\<lparr>commands := commands w @ [\<lparr>commandId = c, args = as\<rparr>]\<rparr>"

text \<open>\<open>setTimeout\<close> registers the callback; \<open>runPython\<close> drops the handle it returns.\<close>

definition setTimeout :: "callback \<Rightarrow> nat \<Rightarrow> workbench \<Rightarrow> workbench" where
  "setTimeout f ms w = w\<lparr>timers := timers w @ [\<lparr>due = clock w + ms, handler = f\<rparr>]\<rparr>"

definition console_log :: "jsstring list \<Rightarrow> workbench \<Rightarrow> workbench" where
  "console_log xs w = w\<lparr>console := console w @ [xs]\<rparr>"

definition tempFileName :: "int \<Rightarrow> jsstring" where
  "tempFileName now = js ''vscode_monaco_'' @ Number_toString now @ js ''.py''"

definition tempFilePath :: "int \<Rightarrow> jsstring" where
  "tempFilePath now = js ''/tmp/'' @ tempFileName now"

definition cleanCommand :: "jsstring \<Rightarrow> jsstring \<Rightarrow> jsstring" where
  "cleanCommand path c =
     js ''clear; cat > '' @ path @ js '' << 'EOF' 2>/dev/null\<newline>'' @ c @
     js ''\<newline>EOF\<newline>echo \"'' @ snake @ js '' Running Python...\"\<newline>python3 '' @ path @
     js '' 2>&1\<newline>rm '' @ path @ js '' 2>/dev/null''"

fun invoke :: "callback \<Rightarrow> workbench \<Rightarrow> workbench" where
  "invoke (RunPythonTimeout path c) w =
     executeCommand (js ''workbench.action.terminal.sendSequence'')
       [[(''text'', cleanCommand path c @ js ''\<newline>'')]] w"

definition runPython :: "int \<Rightarrow> workbench \<Rightarrow> workbench" where
  "runPython now w =
     (let c = or_empty (map_option ICodeEditor_getValue (editor (pane w)))
      in if trim c = [] then w
         else
           (let w1 = executeCommand (js ''workbench.action.terminal.new'') [] w
            in setTimeout (RunPythonTimeout (tempFilePath now) c) 150 w1))"

subsection \<open>The title-bar actions\<close>

definition MonacoInputViewPane_ID :: jsstring where
  "MonacoInputViewPane_ID = js ''workbench.views.monacoInput''"

definition getActiveViewWithId :: "jsstring \<Rightarrow> workbench \<Rightarrow> MonacoInputViewPane option" where
  "getActiveViewWithId i w =
     (if activeView w \<and> i = MonacoInputViewPane_ID then Some (pane w) else None)"

definition ClearMonacoInputAction_run :: "workbench \<Rightarrow> workbench" where
  "ClearMonacoInputAction_run w =
     (case getActiveViewWithId MonacoInputViewPane_ID w of
        None \<Rightarrow> w
      | Some view \<Rightarrow> w\<lparr>pane := clearContent view\<rparr>)"

definition SaveMonacoInputAction_run :: "workbench \<Rightarrow> workbench" where
  "SaveMonacoInputAction_run w =
     (case getActiveViewWithId MonacoInputViewPane_ID w of
        None \<Rightarrow> w
      | Some view \<Rightarrow>
          (let content = getValue view in console_log [js ''Saving content:'', content] w))"

subsection \<open>A rendered pane in a quiet workbench\<close>

definition rendered :: MonacoInputViewPane where
  "rendered = renderBody MonacoInputViewPane_new"

definition startup :: workbench where
  "startup = \<lparr>pane = rendered, activeView = True, commands = [], timers = [], clock = 0,
     console = []\<rparr>"

subsection \<open>Events of the workbench\<close>

text \<open>The command a callback executes when it runs.\<close>

fun issued :: "callback \<Rightarrow> command" where
  "issued (RunPythonTimeout path c) =
     \<lparr>commandId = js ''workbench.action.terminal.sendSequence'',
      args = [[(''text'', cleanCommand path c @ js ''\<newline>'')]]\<rparr>"

text \<open>
  One millisecond passes: the timers that are due run, in the order of their registration,
  and leave the list; a timer never runs before it is due.
\<close>

definition tick :: "workbench \<Rightarrow> workbench" where
  "tick w =
     (let w1 = w\<lparr>clock := clock w + 1\<rparr>;
          ready = filter (\<lambda>t. due t \<le> clock w1) (timers w1);
          w2 = w1\<lparr>timers := filter (\<lambda>t. \<not> due t \<le> clock w1) (timers w1)\<rparr>
      in fold (\<lambda>t. invoke (handler t)) ready w2)"

text \<open>
  What can happen to a rendered pane: a click on the run button (with the value of
  \<open>Date.now()\<close> at that moment), the two title-bar actions, a new text in the editor, and
  the passing of a millisecond.
\<close>

datatype event = Click int | ClearInput | SaveContent | SetValue jsstring | Tick

fun step :: "event \<Rightarrow> workbench \<Rightarrow> workbench" where
  "step (Click now) w = runPython now w"
| "step ClearInput w = ClearMonacoInputAction_run w"
| "step SaveContent w = SaveMonacoInputAction_run w"
| "step (SetValue v) w = w\<lparr>pane := setValue v (pane w)\<rparr>"
| "step Tick w = tick w"

fun run :: "event list \<Rightarrow> workbench \<Rightarrow> workbench" where
  "run [] w = w"
| "run (ev # evs) w = run evs (step ev w)"

definition ticks :: "event list \<Rightarrow> nat" where
  "ticks evs = length (filter (\<lambda>ev. ev = Tick) evs)"

subsection \<open>Reading a shell command\<close>

definition nl :: jschar where
  "nl = 0x000A"

text \<open>The lines of a text, as \<open>split('\n')\<close> gives them.\<close>

fun split_nl :: "jsstring \<Rightarrow> jsstring list" where
  "split_nl [] = [[]]"
| "split_nl (c # cs) =
     (if c = nl then [] # split_nl cs
      else (case split_nl cs of [] \<Rightarrow> [[c]] | l # ls \<Rightarrow> (c # l) # ls))"

text \<open>
  The spec's "capture exit code", for comparison with the command the source builds: the
  shell keeps the exit status of the last command in its special parameter \<open>?\<close>, and a
  command that captures the status expands that parameter, as \<open>$?\<close> or \<open>${?}\<close>.
\<close>

definition captures_exit_code :: "jsstring \<Rightarrow> bool" where
  "captures_exit_code cmd \<longleftrightarrow> sublist (js ''$?'') cmd \<or> sublist (js ''${?}'') cmd"

section \<open>Basic facts\<close>

lemma trim_empty_iff: "trim s = [] \<longleftrightarrow> (\<forall>c \<in> set s. isWhiteSpace c)"
proof
  assume "trim s = []"
  then have "dropWhile isWhiteSpace (rev (dropWhile isWhiteSpace s)) = []"
    by (simp add: trim_def)
  then have all: "\<forall>c \<in> set (dropWhile isWhiteSpace s). isWhiteSpace c"
    by (simp add: dropWhile_eq_Nil_conv)
  have "dropWhile isWhiteSpace s = []"
  proof (rule ccontr)
    assume ne: "dropWhile isWhiteSpace s \<noteq> []"
    then have "\<not> isWhiteSpace (hd (dropWhile isWhiteSpace s))"
      by (rule hd_dropWhile)
    moreover from ne have "hd (dropWhile isWhiteSpace s) \<in> set (dropWhile isWhiteSpace s)"
      by simp
    ultimately show False using all by blast
  qed
  then show "\<forall>c \<in> set s. isWhiteSpace c"
    by (simp add: dropWhile_eq_Nil_conv)
next
  assume "\<forall>c \<in> set s. isWhiteSpace c"
  then have d: "dropWhile isWhiteSpace s = []"
    by (simp add: dropWhile_eq_Nil_conv)
  show "trim s = []"
    unfolding trim_def d by simp
qed

lemma or_empty_Some [simp]: "or_empty (Some s) = s"
  by (simp add: or_empty_def)

lemma or_empty_None [simp]: "or_empty None = []"
  by (simp add: or_empty_def)

lemma rendered_eq:
  "rendered = \<lparr>editor = Some \<lparr>buffer =
       js ''# Type your Python code here\<newline>print(\"Hello from Python!\")\<newline>'',
       hasFocus = False\<rparr>,
     editorContainer = Some (Element ''.monaco-input-container''),
     textModel = Some (js ''inmemory:/monaco-python.py'')\<rparr>"
  by (simp add: rendered_def renderBody_def createEditor_def MonacoInputViewPane_new_def
      CodeEditorWidget_new_def ICodeEditor_setModel_def Let_def)

lemma getValue_rendered:
  "getValue rendered = js ''# Type your Python code here\<newline>print(\"Hello from Python!\")\<newline>''"
  by (simp add: rendered_eq getValue_def ICodeEditor_getValue_def)

lemma rendered_nonblank: "trim (getValue rendered) \<noteq> []"
  by (simp add: trim_empty_iff getValue_rendered js_def isWhiteSpace_def)

lemma runPython_nonblank:
  assumes "trim (getValue (pane w)) \<noteq> []"
  shows "runPython now w =
           setTimeout (RunPythonTimeout (tempFilePath now) (getValue (pane w))) 150
             (executeCommand (js ''workbench.action.terminal.new'') [] w)"
  using assms by (simp add: runPython_def getValue_def Let_def)

lemma runPython_blank:
  assumes "trim (getValue (pane w)) = []"
  shows "runPython now w = w"
  using assms by (simp add: runPython_def getValue_def Let_def)

section \<open>The payload sent to the terminal\<close>

text \<open>
  C1. For every editor text whose trim is non-empty, \<open>runPython\<close> registers one callback,
  and that callback, whenever it runs, executes the host command
  \<open>workbench.action.terminal.sendSequence\<close> once, its \<open>text\<close> argument being the fixed
  template around the editor text: \<open>clear; cat > /tmp/vscode_monaco_<t>.py << 'EOF'
  2>/dev/null\<close>, a newline, the editor text, a newline, \<open>EOF\<close>, the echo line, the
  \<open>python3\<close> line, the \<open>rm\<close> line and a trailing newline, where \<open><t>\<close> is the decimal
  numeral of \<open>Date.now()\<close> at the invocation.
\<close>

theorem runPython_sends_template:
  assumes "trim (getValue (pane w)) \<noteq> []"
  shows "\<exists>f. timers (runPython now w) = timers w @ [\<lparr>due = clock w + 150, handler = f\<rparr>] \<and>
           (\<forall>w'. commands (invoke f w') = commands w' @
              [\<lparr>commandId = js ''workbench.action.terminal.sendSequence'',
                args = [[(''text'',
                  js ''clear; cat > /tmp/vscode_monaco_'' @ Number_toString now @
                  js ''.py << 'EOF' 2>/dev/null\<newline>'' @ getValue (pane w) @
                  js ''\<newline>EOF\<newline>echo \"'' @ snake @
                  js '' Running Python...\"\<newline>python3 /tmp/vscode_monaco_'' @
                  Number_toString now @ js ''.py 2>&1\<newline>rm /tmp/vscode_monaco_'' @
                  Number_toString now @ js ''.py 2>/dev/null'' @ js ''\<newline>'')]]\<rparr>])"
proof -
  let ?f = "RunPythonTimeout (tempFilePath now) (getValue (pane w))"
  have "timers (runPython now w) = timers w @ [\<lparr>due = clock w + 150, handler = ?f\<rparr>]"
    by (simp add: runPython_nonblank [OF assms] setTimeout_def executeCommand_def)
  moreover have "\<forall>w'. commands (invoke ?f w') = commands w' @
      [\<lparr>commandId = js ''workbench.action.terminal.sendSequence'',
        args = [[(''text'',
          js ''clear; cat > /tmp/vscode_monaco_'' @ Number_toString now @
          js ''.py << 'EOF' 2>/dev/null\<newline>'' @ getValue (pane w) @
          js ''\<newline>EOF\<newline>echo \"'' @ snake @
          js '' Running Python...\"\<newline>python3 /tmp/vscode_monaco_'' @
          Number_toString now @ js ''.py 2>&1\<newline>rm /tmp/vscode_monaco_'' @
          Number_toString now @ js ''.py 2>/dev/null'' @ js ''\<newline>'')]]\<rparr>]"
    by (simp add: executeCommand_def cleanCommand_def tempFilePath_def tempFileName_def js_def)
  ultimately show ?thesis by blast
qed

theorem runPython_sends_template_witness:
  "trim (getValue (pane startup)) \<noteq> [] \<and>
   commands (invoke (handler (last (timers (runPython 1700000000000 startup)))) startup) =
     [\<lparr>commandId = js ''workbench.action.terminal.sendSequence'',
       args = [[(''text'',
         js ''clear; cat > /tmp/vscode_monaco_1700000000000.py << 'EOF' 2>/dev/null\<newline># Type your Python code here\<newline>print(\"Hello from Python!\")\<newline>\<newline>EOF\<newline>echo \"'' @
         snake @
         js '' Running Python...\"\<newline>python3 /tmp/vscode_monaco_1700000000000.py 2>&1\<newline>rm /tmp/vscode_monaco_1700000000000.py 2>/dev/null\<newline>'')]]\<rparr>]"
proof -
  have h: "trim (getValue (pane startup)) \<noteq> []"
    by (simp add: startup_def rendered_nonblank)
  have n: "Number_toString 1700000000000 = js ''1700000000000''"
    by (simp add: Number_toString_def digitsOf.simps js_def)
  have p: "getValue (pane startup) = getValue rendered" "commands startup = []"
    by (simp_all add: startup_def)
  from runPython_sends_template [OF h, of 1700000000000] obtain f where
    f: "timers (runPython 1700000000000 startup) =
          timers startup @ [\<lparr>due = clock startup + 150, handler = f\<rparr>]"
    and s: "commands (invoke f startup) = commands startup @
      [\<lparr>commandId = js ''workbench.action.terminal.sendSequence'',
        args = [[(''text'',
          js ''clear; cat > /tmp/vscode_monaco_'' @ Number_toString 1700000000000 @
          js ''.py << 'EOF' 2>/dev/null\<newline>'' @ getValue (pane startup) @
          js ''\<newline>EOF\<newline>echo \"'' @ snake @
          js '' Running Python...\"\<newline>python3 /tmp/vscode_monaco_'' @
          Number_toString 1700000000000 @ js ''.py 2>&1\<newline>rm /tmp/vscode_monaco_'' @
          Number_toString 1700000000000 @ js ''.py 2>/dev/null'' @ js ''\<newline>'')]]\<rparr>]"
    by blast
  have "handler (last (timers (runPython 1700000000000 startup))) = f"
    by (simp add: f)
  then show ?thesis
    using h s by (simp add: n p getValue_rendered js_def)
qed

section \<open>The steps of the generated command\<close>

lemma split_nl_nonempty: "split_nl s \<noteq> []"
  by (induction s) (auto split: list.splits)

lemma split_nl_append_nl: "split_nl (a @ nl # b) = split_nl a @ split_nl b"
proof (induction a)
  case Nil
  show ?case by simp
next
  case (Cons c a)
  obtain l ls where s: "split_nl a = l # ls"
    using split_nl_nonempty [of a] by (cases "split_nl a") auto
  show ?case
    by (simp add: Cons s)
qed

lemma split_nl_no_nl: "nl \<notin> set s \<Longrightarrow> split_nl s = [s]"
  by (induction s) auto

lemma digit_char:
  assumes "n < 10"
  shows "(of_nat (48 + n) :: jschar) \<in> {0x30, 0x31, 0x32, 0x33, 0x34, 0x35, 0x36, 0x37, 0x38, 0x39}"
proof -
  from assms consider "n = 0" | "n = 1" | "n = 2" | "n = 3" | "n = 4" | "n = 5" | "n = 6"
    | "n = 7" | "n = 8" | "n = 9"
    by atomize_elim arith
  then show ?thesis by cases simp_all
qed

lemma digitsOf_chars:
  "set (digitsOf n) \<subseteq> {0x30, 0x31, 0x32, 0x33, 0x34, 0x35, 0x36, 0x37, 0x38, 0x39}"
proof (induction n rule: digitsOf.induct)
  case (1 n)
  show ?case
  proof (cases "n < 10")
    case True
    then show ?thesis
      using digit_char [of n] by (subst digitsOf.simps) simp
  next
    case False
    have "n mod 10 < 10" by simp
    from digit_char [OF this] 1 [OF False] False show ?thesis
      by (subst digitsOf.simps) simp
  qed
qed

lemma Number_toString_chars:
  "set (Number_toString i) \<subseteq>
     {0x2D, 0x30, 0x31, 0x32, 0x33, 0x34, 0x35, 0x36, 0x37, 0x38, 0x39}"
  using digitsOf_chars [of "nat i"] digitsOf_chars [of "nat (- i)"]
  by (auto simp: Number_toString_def js_def)

lemma tempFilePath_chars:
  "nl \<notin> set (tempFilePath now)" "0x24 \<notin> set (tempFilePath now)"
  using Number_toString_chars [of now]
  by (auto simp: tempFilePath_def tempFileName_def js_def nl_def)


lemma payload_shape:
  "cleanCommand path c @ js ''\<newline>'' =
     (js ''clear; cat > '' @ path @ js '' << 'EOF' 2>/dev/null'') @ nl # c @ nl #
     js ''EOF'' @ nl # (js ''echo \"'' @ snake @ js '' Running Python...\"'') @ nl #
     (js ''python3 '' @ path @ js '' 2>&1'') @ nl #
     (js ''rm '' @ path @ js '' 2>/dev/null'') @ nl # []"
  by (simp add: cleanCommand_def js_def nl_def)

lemma payload_lines:
  assumes "nl \<notin> set path"
  shows "split_nl (cleanCommand path c @ js ''\<newline>'') =
           (js ''clear; cat > '' @ path @ js '' << 'EOF' 2>/dev/null'') # split_nl c @
           [js ''EOF'', js ''echo \"'' @ snake @ js '' Running Python...\"'',
            js ''python3 '' @ path @ js '' 2>&1'', js ''rm '' @ path @ js '' 2>/dev/null'', []]"
proof -
  have 1: "nl \<notin> set (js ''clear; cat > '' @ path @ js '' << 'EOF' 2>/dev/null'')"
    using assms by (simp add: js_def nl_def)
  have 2: "nl \<notin> set (js ''EOF'')"
    by (simp add: js_def nl_def)
  have 3: "nl \<notin> set (js ''echo \"'' @ snake @ js '' Running Python...\"'')"
    by (simp add: js_def nl_def snake_def)
  have 4: "nl \<notin> set (js ''python3 '' @ path @ js '' 2>&1'')"
    using assms by (simp add: js_def nl_def)
  have 5: "nl \<notin> set (js ''rm '' @ path @ js '' 2>/dev/null'')"
    using assms by (simp add: js_def nl_def)
  show ?thesis
    unfolding payload_shape
    by (simp only: split_nl_append_nl split_nl_no_nl [OF 1] split_nl_no_nl [OF 2]
        split_nl_no_nl [OF 3] split_nl_no_nl [OF 4] split_nl_no_nl [OF 5] split_nl.simps(1)
        append.simps)
qed

lemma sublist_skip_left:
  assumes "d \<notin> set a"
  shows "sublist (d # zs) (a @ b) \<longleftrightarrow> sublist (d # zs) b"
proof
  assume "sublist (d # zs) (a @ b)"
  then consider "sublist (d # zs) a" | "sublist (d # zs) b"
    | xs1 xs2 where "d # zs = xs1 @ xs2" "suffix xs1 a" "prefix xs2 b"
    by (auto simp: sublist_append)
  then show "sublist (d # zs) b"
  proof cases
    case 1
    then have "d \<in> set a" using set_mono_sublist by fastforce
    with assms show ?thesis by simp
  next
    case 2
    then show ?thesis .
  next
    case 3
    show ?thesis
    proof (cases xs1)
      case Nil
      with 3 show ?thesis by simp
    next
      case (Cons x xs)
      with 3 have "d \<in> set xs1" by simp
      moreover from 3 have "set xs1 \<subseteq> set a" by (simp add: set_mono_suffix)
      ultimately show ?thesis using assms by blast
    qed
  qed
next
  assume "sublist (d # zs) b"
  then show "sublist (d # zs) (a @ b)"
    by (simp add: sublist_append)
qed

lemma sublist_skip_right:
  assumes "d \<notin> set (x # b)" and "x \<notin> set zs"
  shows "sublist (d # zs) (a @ x # b) \<longleftrightarrow> sublist (d # zs) a"
proof
  assume "sublist (d # zs) (a @ x # b)"
  then consider "sublist (d # zs) a" | "sublist (d # zs) (x # b)"
    | xs1 xs2 where "d # zs = xs1 @ xs2" "suffix xs1 a" "prefix xs2 (x # b)"
    by (auto simp: sublist_append)
  then show "sublist (d # zs) a"
  proof cases
    case 1
    then show ?thesis .
  next
    case 2
    then have "d \<in> set (x # b)" using set_mono_sublist by fastforce
    with assms show ?thesis by simp
  next
    case 3
    show ?thesis
    proof (cases xs2)
      case Nil
      with 3 show ?thesis by simp
    next
      case (Cons y ys)
      with 3 have y: "y = x" by simp
      show ?thesis
      proof (cases xs1)
        case Nil
        with 3 Cons y have "d = x" by simp
        with assms show ?thesis by simp
      next
        case c: (Cons u us)
        with 3 Cons have "y \<in> set zs" by auto
        with y assms show ?thesis by simp
      qed
    qed
  qed
next
  assume "sublist (d # zs) a"
  then show "sublist (d # zs) (a @ x # b)"
    by (simp add: sublist_append)
qed

lemma captures_payload:
  assumes "0x24 \<notin> set path"
  shows "captures_exit_code (cleanCommand path c @ js ''\<newline>'') \<longleftrightarrow> captures_exit_code c"
proof -
  let ?a = "js ''clear; cat > '' @ path @ js '' << 'EOF' 2>/dev/null\<newline>''"
  let ?b = "js ''EOF\<newline>echo \"'' @ snake @ js '' Running Python...\"\<newline>python3 '' @ path @
     js '' 2>&1\<newline>rm '' @ path @ js '' 2>/dev/null\<newline>''"
  have shape: "cleanCommand path c @ js ''\<newline>'' = ?a @ c @ nl # ?b"
    by (simp add: cleanCommand_def js_def nl_def)
  have a: "0x24 \<notin> set ?a"
    using assms by (simp add: js_def)
  have b: "0x24 \<notin> set (nl # ?b)"
    using assms by (simp add: js_def nl_def snake_def)
  have q: "nl \<notin> set [0x3F :: jschar]" "nl \<notin> set [0x7B, 0x3F, 0x7D :: jschar]"
    by (simp_all add: nl_def)
  have "sublist (0x24 # [0x3F]) (?a @ c @ nl # ?b) \<longleftrightarrow> sublist (0x24 # [0x3F]) c"
    using sublist_skip_left [OF a] sublist_skip_right [OF b q(1)] by simp
  moreover have "sublist (0x24 # [0x7B, 0x3F, 0x7D]) (?a @ c @ nl # ?b) \<longleftrightarrow>
      sublist (0x24 # [0x7B, 0x3F, 0x7D]) c"
    using sublist_skip_left [OF a] sublist_skip_right [OF b q(2)] by simp
  moreover have "js ''$?'' = 0x24 # [0x3F]" "js ''${?}'' = 0x24 # [0x7B, 0x3F, 0x7D]"
    by (simp_all add: js_def)
  ultimately show ?thesis
    unfolding captures_exit_code_def shape by simp
qed

text \<open>
  C2, as stated, fails: the command generated for the text \<open>print(1)\<close> has no step
  that captures the interpreter's exit status.
\<close>

theorem cleanCommand_captures_counterexample:
  "trim (js ''print(1)'') \<noteq> [] \<and>
   \<not> captures_exit_code
     (cleanCommand (tempFilePath 1700000000000) (js ''print(1)'') @ js ''\<newline>'')"
proof -
  have n: "Number_toString 1700000000000 = js ''1700000000000''"
    by (simp add: Number_toString_def digitsOf.simps js_def)
  have "trim (js ''print(1)'') \<noteq> []"
    by (simp add: trim_empty_iff js_def isWhiteSpace_def)
  moreover have "\<not> captures_exit_code
      (cleanCommand (tempFilePath 1700000000000) (js ''print(1)'') @ js ''\<newline>'')"
    by (simp add: captures_exit_code_def cleanCommand_def tempFilePath_def tempFileName_def n
        js_def snake_def sublist_code)
  ultimately show ?thesis by simp
qed

text \<open>
  C2, amended. The generated command is a fixed template around the editor text. Its
  lines are, in order: the line that clears the screen and opens the heredoc into the
  temp file, the lines of the editor text, the delimiter \<open>EOF\<close>, the echo of the banner,
  the interpreter run on the temp file with its error stream joined to its output, and
  the removal of the temp file. The template has no step that captures the interpreter's
  exit status: the command expands the shell's status parameter exactly when the editor
  text itself contains the expansion.
\<close>

theorem cleanCommand_steps:
  "split_nl (cleanCommand (tempFilePath now) c @ js ''\<newline>'') =
     [js ''clear; cat > /tmp/vscode_monaco_'' @ Number_toString now @
        js ''.py << 'EOF' 2>/dev/null''] @
     split_nl c @
     [js ''EOF'',
      js ''echo \"'' @ snake @ js '' Running Python...\"'',
      js ''python3 /tmp/vscode_monaco_'' @ Number_toString now @ js ''.py 2>&1'',
      js ''rm /tmp/vscode_monaco_'' @ Number_toString now @ js ''.py 2>/dev/null'',
      []] \<and>
   (captures_exit_code (cleanCommand (tempFilePath now) c @ js ''\<newline>'') \<longleftrightarrow>
      captures_exit_code c)"
proof -
  have "split_nl (cleanCommand (tempFilePath now) c @ js ''\<newline>'') =
     [js ''clear; cat > /tmp/vscode_monaco_'' @ Number_toString now @
        js ''.py << 'EOF' 2>/dev/null''] @
     split_nl c @
     [js ''EOF'',
      js ''echo \"'' @ snake @ js '' Running Python...\"'',
      js ''python3 /tmp/vscode_monaco_'' @ Number_toString now @ js ''.py 2>&1'',
      js ''rm /tmp/vscode_monaco_'' @ Number_toString now @ js ''.py 2>/dev/null'',
      []]"
    unfolding payload_lines [OF tempFilePath_chars(1)]
    by (simp add: tempFilePath_def tempFileName_def js_def)
  then show ?thesis
    using captures_payload [OF tempFilePath_chars(2)] by simp
qed

theorem cleanCommand_steps_witness:
  "split_nl (cleanCommand (tempFilePath 1700000000000) (js ''import sys\<newline>sys.exit(3)'') @
      js ''\<newline>'') =
     [js ''clear; cat > /tmp/vscode_monaco_1700000000000.py << 'EOF' 2>/dev/null'',
      js ''import sys'',
      js ''sys.exit(3)'',
      js ''EOF'',
      js ''echo \"'' @ snake @ js '' Running Python...\"'',
      js ''python3 /tmp/vscode_monaco_1700000000000.py 2>&1'',
      js ''rm /tmp/vscode_monaco_1700000000000.py 2>/dev/null'',
      []]"
proof -
  have n: "Number_toString 1700000000000 = js ''1700000000000''"
    by (simp add: Number_toString_def digitsOf.simps js_def)
  have l: "split_nl (js ''import sys\<newline>sys.exit(3)'') = [js ''import sys'', js ''sys.exit(3)'']"
    by (simp add: js_def nl_def)
  from cleanCommand_steps [of 1700000000000 "js ''import sys\<newline>sys.exit(3)''"]
  show ?thesis
    unfolding n l by (simp add: js_def)
qed

section \<open>The editor text inside the command\<close>

text \<open>
  C10. For every non-blank editor text, the string that the callback registered by
  \<open>runPython\<close> sends with \<open>workbench.action.terminal.sendSequence\<close> contains that text
  as a contiguous part, and the lines of the heredoc body, between the opening line and
  the template's own \<open>EOF\<close>, are the lines of the text, unchanged. Nothing is escaped: a
  line \<open>EOF\<close> of the text is a line \<open>EOF\<close> of the body, as the text
  \<open>x = 1\<close>, \<open>EOF\<close>, \<open>print(x)\<close> shows.
\<close>

theorem runPython_embeds_verbatim:
  fixes w :: workbench and now :: int
  defines "txt \<equiv> getValue (pane w)"
  defines "payload \<equiv> cleanCommand (tempFilePath now) (getValue (pane w)) @ js ''\<newline>''"
  assumes "trim (getValue (pane w)) \<noteq> []"
  shows "(\<exists>f. timers (runPython now w) = timers w @ [\<lparr>due = clock w + 150, handler = f\<rparr>] \<and>
           (\<forall>w'. commands (invoke f w') = commands w' @
              [\<lparr>commandId = js ''workbench.action.terminal.sendSequence'',
                args = [[(''text'', payload)]]\<rparr>])) \<and>
         sublist txt payload \<and>
         take (length (split_nl txt)) (tl (split_nl payload)) = split_nl txt \<and>
         drop (length (split_nl txt)) (tl (split_nl payload)) =
           [js ''EOF'',
            js ''echo \"'' @ snake @ js '' Running Python...\"'',
            js ''python3 /tmp/vscode_monaco_'' @ Number_toString now @ js ''.py 2>&1'',
            js ''rm /tmp/vscode_monaco_'' @ Number_toString now @ js ''.py 2>/dev/null'',
            []]"
proof -
  let ?f = "RunPythonTimeout (tempFilePath now) (getValue (pane w))"
  have "timers (runPython now w) = timers w @ [\<lparr>due = clock w + 150, handler = ?f\<rparr>]"
    by (simp add: runPython_nonblank [OF assms(3)] setTimeout_def executeCommand_def)
  moreover have "\<forall>w'. commands (invoke ?f w') = commands w' @
      [\<lparr>commandId = js ''workbench.action.terminal.sendSequence'',
        args = [[(''text'', payload)]]\<rparr>]"
    by (simp add: executeCommand_def payload_def)
  ultimately have a: "\<exists>f. timers (runPython now w) =
      timers w @ [\<lparr>due = clock w + 150, handler = f\<rparr>] \<and>
      (\<forall>w'. commands (invoke f w') = commands w' @
         [\<lparr>commandId = js ''workbench.action.terminal.sendSequence'',
           args = [[(''text'', payload)]]\<rparr>])"
    by blast
  have b: "sublist txt payload"
    unfolding payload_def txt_def cleanCommand_def
    by (metis append.assoc sublist_appendI)
  have lines: "tl (split_nl payload) = split_nl txt @
      [js ''EOF'',
       js ''echo \"'' @ snake @ js '' Running Python...\"'',
       js ''python3 /tmp/vscode_monaco_'' @ Number_toString now @ js ''.py 2>&1'',
       js ''rm /tmp/vscode_monaco_'' @ Number_toString now @ js ''.py 2>/dev/null'',
       []]"
    unfolding payload_def txt_def payload_lines [OF tempFilePath_chars(1)]
    by (simp add: tempFilePath_def tempFileName_def js_def)
  show ?thesis
    unfolding lines using a b by simp
qed

theorem runPython_embeds_verbatim_witness:
  "trim (getValue (pane (startup\<lparr>pane := setValue (js ''x = 1\<newline>EOF\<newline>print(x)'') rendered\<rparr>))) \<noteq> [] \<and>
   split_nl (js ''x = 1\<newline>EOF\<newline>print(x)'') = [js ''x = 1'', js ''EOF'', js ''print(x)''] \<and>
   sublist (js ''x = 1\<newline>EOF\<newline>print(x)'')
     (cleanCommand (tempFilePath 1700000000000) (js ''x = 1\<newline>EOF\<newline>print(x)'') @ js ''\<newline>'') \<and>
   take 3 (tl (split_nl
     (cleanCommand (tempFilePath 1700000000000) (js ''x = 1\<newline>EOF\<newline>print(x)'') @ js ''\<newline>''))) =
     [js ''x = 1'', js ''EOF'', js ''print(x)'']"
proof -
  let ?w = "startup\<lparr>pane := setValue (js ''x = 1\<newline>EOF\<newline>print(x)'') rendered\<rparr>"
  have g: "getValue (pane ?w) = js ''x = 1\<newline>EOF\<newline>print(x)''"
    by (simp add: rendered_eq setValue_def getValue_def ICodeEditor_getValue_def
        ICodeEditor_setValue_def)
  have h: "trim (getValue (pane ?w)) \<noteq> []"
    unfolding g by (simp add: trim_empty_iff js_def isWhiteSpace_def)
  have l: "split_nl (js ''x = 1\<newline>EOF\<newline>print(x)'') = [js ''x = 1'', js ''EOF'', js ''print(x)'']"
    by (simp add: js_def nl_def)
  from runPython_embeds_verbatim [OF h, of 1700000000000] h l show ?thesis
    unfolding g by (simp add: numeral_3_eq_3)
qed

section \<open>Guards\<close>

text \<open>
  C3. When the editor is missing, or its text is empty or consists of whitespace only,
  \<open>runPython\<close> returns the workbench as it found it: no command is executed, neither
  \<open>workbench.action.terminal.new\<close> nor \<open>workbench.action.terminal.sendSequence\<close>, no
  timer is registered and nothing else changes.
\<close>

theorem runPython_blank_returns:
  assumes "editor (pane w) = None \<or> (\<forall>c \<in> set (getValue (pane w)). isWhiteSpace c)"
  shows "runPython now w = w"
proof -
  from assms have "trim (getValue (pane w)) = []"
    by (auto simp: trim_empty_iff getValue_def)
  then show ?thesis by (rule runPython_blank)
qed

theorem runPython_blank_returns_witness:
  "getValue (pane (startup\<lparr>pane := setValue (js '' \<newline>  '') rendered\<rparr>)) = js '' \<newline>  '' \<and>
   runPython 1700000000000 (startup\<lparr>pane := setValue (js '' \<newline>  '') rendered\<rparr>) =
     startup\<lparr>pane := setValue (js '' \<newline>  '') rendered\<rparr>"
proof -
  let ?w = "startup\<lparr>pane := setValue (js '' \<newline>  '') rendered\<rparr>"
  have g: "getValue (pane ?w) = js '' \<newline>  ''"
    by (simp add: setValue_def rendered_eq getValue_def ICodeEditor_getValue_def
        ICodeEditor_setValue_def)
  have "\<forall>c \<in> set (getValue (pane ?w)). isWhiteSpace c"
    unfolding g by (simp add: js_def isWhiteSpace_def)
  then have "editor (pane ?w) = None \<or> (\<forall>c \<in> set (getValue (pane ?w)). isWhiteSpace c)" ..
  from runPython_blank_returns [OF this, of 1700000000000] g show ?thesis by simp
qed

section \<open>Reading and writing the text\<close>

text \<open>
  C5. On a pane whose editor exists, the text set by \<open>setValue\<close> is the text that
  \<open>getValue\<close> reads back, for every string.
\<close>

theorem setValue_then_getValue:
  assumes "editor p = Some e"
  shows "getValue (setValue v p) = v"
  using assms
  by (simp add: getValue_def setValue_def ICodeEditor_getValue_def ICodeEditor_setValue_def)

theorem setValue_then_getValue_witness:
  "editor rendered \<noteq> None \<and> getValue (setValue (js ''print(1)'') rendered) = js ''print(1)''"
proof -
  obtain e where e: "editor rendered = Some e"
    by (simp add: rendered_eq)
  from setValue_then_getValue [OF e, of "js ''print(1)''"] e show ?thesis by simp
qed

text \<open>
  C6. With no editor, \<open>getValue\<close> returns the empty string, \<open>setValue\<close> and
  \<open>clearContent\<close> leave the pane as it is and \<open>runPython\<close> leaves the workbench as it
  is, so it sends nothing. The four operations are total: each goes through the optional
  access to the editor, none has a failing branch.
\<close>

theorem missing_editor_guards:
  assumes "editor (pane w) = None"
  shows "getValue (pane w) = [] \<and> setValue v (pane w) = pane w \<and>
         clearContent (pane w) = pane w \<and> runPython now w = w"
proof -
  have "getValue (pane w) = []"
    using assms by (simp add: getValue_def)
  moreover have "setValue v (pane w) = pane w"
    using assms by (simp add: setValue_def)
  moreover have "clearContent (pane w) = pane w"
    using assms by (simp add: clearContent_def Let_def)
  moreover have "runPython now w = w"
    using assms by (simp add: runPython_def Let_def trim_def)
  ultimately show ?thesis by simp
qed

theorem missing_editor_guards_witness:
  "editor (pane (startup\<lparr>pane := MonacoInputViewPane_new\<rparr>)) = None \<and>
   getValue MonacoInputViewPane_new = [] \<and>
   setValue (js ''x'') MonacoInputViewPane_new = MonacoInputViewPane_new \<and>
   clearContent MonacoInputViewPane_new = MonacoInputViewPane_new \<and>
   runPython 1700000000000 (startup\<lparr>pane := MonacoInputViewPane_new\<rparr>) =
     startup\<lparr>pane := MonacoInputViewPane_new\<rparr>"
proof -
  have h: "editor (pane (startup\<lparr>pane := MonacoInputViewPane_new\<rparr>)) = None"
    by (simp add: MonacoInputViewPane_new_def)
  from missing_editor_guards [OF h, of "js ''x''" 1700000000000] h show ?thesis by simp
qed

text \<open>
  C9. On a pane whose editor exists, \<open>clearContent\<close> leaves the placeholder text in
  the editor, the text that \<open>createEditor\<close> loads into a new editor; it is not the empty
  string.
\<close>

theorem clearContent_loads_placeholder:
  assumes "editor p = Some e"
  shows "getValue (clearContent p) =
           js ''# Type your Python code here\<newline>print(\"Hello from Python!\")\<newline>'' \<and>
         getValue (clearContent p) \<noteq> [] \<and>
         (\<forall>q c. editorContainer q = Some c \<longrightarrow>
            getValue (clearContent p) = getValue (createEditor q))"
proof -
  have a: "getValue (clearContent p) =
      js ''# Type your Python code here\<newline>print(\"Hello from Python!\")\<newline>''"
    using assms
    by (simp add: getValue_def clearContent_def Let_def ICodeEditor_getValue_def
        ICodeEditor_setValue_def ICodeEditor_focus_def)
  have b: "getValue (createEditor q) =
      js ''# Type your Python code here\<newline>print(\"Hello from Python!\")\<newline>''"
    if "editorContainer q = Some c" for q c
    using that
    by (simp add: getValue_def createEditor_def Let_def ICodeEditor_getValue_def
        ICodeEditor_setModel_def CodeEditorWidget_new_def)
  have c: "js ''# Type your Python code here\<newline>print(\"Hello from Python!\")\<newline>'' \<noteq> []"
    by (simp add: js_def)
  show ?thesis using a b c by simp
qed

theorem clearContent_loads_placeholder_witness:
  "editor (setValue (js ''x = 1'') rendered) \<noteq> None \<and>
   getValue (setValue (js ''x = 1'') rendered) = js ''x = 1'' \<and>
   editorContainer (MonacoInputViewPane_new\<lparr>editorContainer := Some (Element ''div'')\<rparr>) =
     Some (Element ''div'') \<and>
   getValue (clearContent (setValue (js ''x = 1'') rendered)) =
     getValue (createEditor
       (MonacoInputViewPane_new\<lparr>editorContainer := Some (Element ''div'')\<rparr>)) \<and>
   getValue (clearContent (setValue (js ''x = 1'') rendered)) \<noteq> []"
proof -
  let ?q = "MonacoInputViewPane_new\<lparr>editorContainer := Some (Element ''div'')\<rparr>"
  obtain e where e: "editor (setValue (js ''x = 1'') rendered) = Some e"
    by (simp add: rendered_eq setValue_def)
  have g: "getValue (setValue (js ''x = 1'') rendered) = js ''x = 1''"
    by (simp add: rendered_eq setValue_def getValue_def ICodeEditor_getValue_def
        ICodeEditor_setValue_def)
  have q: "editorContainer ?q = Some (Element ''div'')"
    by simp
  from clearContent_loads_placeholder [OF e] q
  have "getValue (clearContent (setValue (js ''x = 1'') rendered)) = getValue (createEditor ?q)"
    and "getValue (clearContent (setValue (js ''x = 1'') rendered)) \<noteq> []"
    by blast+
  with e g q show ?thesis by simp
qed

section \<open>The title-bar actions\<close>

text \<open>
  C4, as stated, fails: after the Clear action on the active view, whose editor held the
  text \<open>x = 1\<close>, the editor's text is not empty.
\<close>

theorem ClearAction_empties_counterexample:
  "activeView (startup\<lparr>pane := setValue (js ''x = 1'') rendered\<rparr>) \<and>
   getValue (pane (startup\<lparr>pane := setValue (js ''x = 1'') rendered\<rparr>)) = js ''x = 1'' \<and>
   getValue (pane (ClearMonacoInputAction_run
     (startup\<lparr>pane := setValue (js ''x = 1'') rendered\<rparr>))) \<noteq> []"
  by (simp add: startup_def rendered_eq setValue_def ClearMonacoInputAction_run_def
      getActiveViewWithId_def clearContent_def Let_def getValue_def ICodeEditor_getValue_def
      ICodeEditor_setValue_def ICodeEditor_focus_def js_def)

text \<open>
  C4, amended. The Clear action, run while the Monaco Input view is the active view and
  its editor exists, resets the editor's text to the placeholder text: after the action,
  \<open>getValue\<close> returns the placeholder, which is not the empty string.
\<close>

theorem ClearAction_loads_placeholder:
  assumes "activeView w" and "editor (pane w) = Some e"
  shows "getValue (pane (ClearMonacoInputAction_run w)) =
           js ''# Type your Python code here\<newline>print(\"Hello from Python!\")\<newline>'' \<and>
         getValue (pane (ClearMonacoInputAction_run w)) \<noteq> []"
proof -
  have "getValue (pane (ClearMonacoInputAction_run w)) =
      js ''# Type your Python code here\<newline>print(\"Hello from Python!\")\<newline>''"
    using assms
    by (simp add: ClearMonacoInputAction_run_def getActiveViewWithId_def clearContent_def
        Let_def getValue_def ICodeEditor_getValue_def ICodeEditor_setValue_def
        ICodeEditor_focus_def)
  moreover have
    "js ''# Type your Python code here\<newline>print(\"Hello from Python!\")\<newline>'' \<noteq> []"
    by (simp add: js_def)
  ultimately show ?thesis by simp
qed

theorem ClearAction_loads_placeholder_witness:
  "activeView (startup\<lparr>pane := setValue (js ''x = 1'') rendered\<rparr>) \<and>
   editor (pane (startup\<lparr>pane := setValue (js ''x = 1'') rendered\<rparr>)) \<noteq> None \<and>
   getValue (pane (startup\<lparr>pane := setValue (js ''x = 1'') rendered\<rparr>)) = js ''x = 1'' \<and>
   getValue (pane (ClearMonacoInputAction_run
     (startup\<lparr>pane := setValue (js ''x = 1'') rendered\<rparr>))) =
     js ''# Type your Python code here\<newline>print(\"Hello from Python!\")\<newline>''"
proof -
  let ?w = "startup\<lparr>pane := setValue (js ''x = 1'') rendered\<rparr>"
  have a: "activeView ?w"
    by (simp add: startup_def)
  obtain e where e: "editor (pane ?w) = Some e"
    by (simp add: rendered_eq setValue_def)
  have g: "getValue (pane ?w) = js ''x = 1''"
    by (simp add: rendered_eq setValue_def getValue_def ICodeEditor_getValue_def
        ICodeEditor_setValue_def)
  from ClearAction_loads_placeholder [OF a e] a e g show ?thesis by simp
qed

text \<open>
  C8. The Save action on the active view reads the text with \<open>getValue\<close> and logs it to
  the console; the pane, its editor's text included, and every field of the workbench
  other than the console are as before.
\<close>

theorem SaveAction_reads_only:
  assumes "activeView w"
  shows "SaveMonacoInputAction_run w =
           w\<lparr>console := console w @ [[js ''Saving content:'', getValue (pane w)]]\<rparr> \<and>
         pane (SaveMonacoInputAction_run w) = pane w \<and>
         getValue (pane (SaveMonacoInputAction_run w)) = getValue (pane w)"
  using assms
  by (simp add: SaveMonacoInputAction_run_def getActiveViewWithId_def console_log_def Let_def)

theorem SaveAction_reads_only_witness:
  "activeView startup \<and>
   SaveMonacoInputAction_run startup =
     startup\<lparr>console := [[js ''Saving content:'',
       js ''# Type your Python code here\<newline>print(\"Hello from Python!\")\<newline>'']]\<rparr> \<and>
   pane (SaveMonacoInputAction_run startup) = rendered"
proof -
  have a: "activeView startup"
    by (simp add: startup_def)
  have c: "console startup = []" "pane startup = rendered"
    by (simp_all add: startup_def)
  from SaveAction_reads_only [OF a] a show ?thesis
    by (simp add: c getValue_rendered)
qed

section \<open>The delayed send\<close>

lemma invoke_eq: "invoke f w = w\<lparr>commands := commands w @ [issued f]\<rparr>"
  by (cases f) (simp add: executeCommand_def)

lemma fold_invoke:
  "fold (\<lambda>t. invoke (handler t)) ts w =
     w\<lparr>commands := commands w @ map (\<lambda>t. issued (handler t)) ts\<rparr>"
  by (induction ts arbitrary: w) (simp_all add: invoke_eq)

lemma tick_eq:
  "tick w = w\<lparr>clock := clock w + 1,
     timers := filter (\<lambda>t. \<not> due t \<le> clock w + 1) (timers w),
     commands := commands w @
       map (\<lambda>t. issued (handler t)) (filter (\<lambda>t. due t \<le> clock w + 1) (timers w))\<rparr>"
  by (simp add: tick_def Let_def fold_invoke)

lemma runPython_cases:
  "runPython now w = w \<or>
   runPython now w =
     w\<lparr>commands := commands w @ [\<lparr>commandId = js ''workbench.action.terminal.new'', args = []\<rparr>],
       timers := timers w @ [\<lparr>due = clock w + 150,
         handler = RunPythonTimeout (tempFilePath now) (getValue (pane w))\<rparr>]\<rparr>"
  by (simp add: runPython_def Let_def getValue_def executeCommand_def setTimeout_def)

lemma step_clock: "clock (step ev w) = clock w + (if ev = Tick then 1 else 0)"
proof (cases ev)
  case (Click now)
  then show ?thesis using runPython_cases [of now w] by auto
next
  case ClearInput
  then show ?thesis by (simp add: ClearMonacoInputAction_run_def split: option.splits)
next
  case SaveContent
  then show ?thesis
    by (simp add: SaveMonacoInputAction_run_def console_log_def Let_def split: option.splits)
next
  case (SetValue v)
  then show ?thesis by simp
next
  case Tick
  then show ?thesis by (simp add: tick_eq)
qed

lemma step_keeps_timer:
  assumes "t \<in> set (timers w)" and "clock (step ev w) < due t"
  shows "t \<in> set (timers (step ev w))"
proof (cases ev)
  case (Click now)
  then show ?thesis using runPython_cases [of now w] assms(1) by auto
next
  case ClearInput
  then show ?thesis
    using assms(1) by (simp add: ClearMonacoInputAction_run_def split: option.splits)
next
  case SaveContent
  then show ?thesis
    using assms(1)
    by (simp add: SaveMonacoInputAction_run_def console_log_def Let_def split: option.splits)
next
  case (SetValue v)
  then show ?thesis using assms(1) by simp
next
  case Tick
  then show ?thesis using assms by (simp add: tick_eq)
qed

lemma step_commands: "prefix (commands w) (commands (step ev w))"
proof (cases ev)
  case (Click now)
  then show ?thesis using runPython_cases [of now w] by auto
next
  case ClearInput
  then show ?thesis by (simp add: ClearMonacoInputAction_run_def split: option.splits)
next
  case SaveContent
  then show ?thesis
    by (simp add: SaveMonacoInputAction_run_def console_log_def Let_def split: option.splits)
next
  case (SetValue v)
  then show ?thesis by simp
next
  case Tick
  then show ?thesis by (simp add: tick_eq)
qed

lemma run_append: "run (as @ bs) w = run bs (run as w)"
  by (induction as arbitrary: w) simp_all

lemma run_clock: "clock (run evs w) = clock w + ticks evs"
  by (induction evs arbitrary: w) (simp_all add: ticks_def step_clock)

lemma run_keeps_timer:
  "t \<in> set (timers w) \<Longrightarrow> clock w + ticks evs < due t \<Longrightarrow> t \<in> set (timers (run evs w))"
proof (induction evs arbitrary: w)
  case Nil
  then show ?case by simp
next
  case (Cons ev evs)
  have c: "clock (step ev w) + ticks evs = clock w + ticks (ev # evs)"
    by (simp add: step_clock ticks_def)
  with Cons.prems have "clock (step ev w) < due t" by simp
  with Cons.prems have "t \<in> set (timers (step ev w))"
    by (simp add: step_keeps_timer)
  with Cons.IH [of "step ev w"] Cons.prems c show ?case by simp
qed

lemma run_commands: "prefix (commands w) (commands (run evs w))"
proof (induction evs arbitrary: w)
  case Nil
  show ?case by simp
next
  case (Cons ev evs)
  have "prefix (commands w) (commands (step ev w))" by (rule step_commands)
  also have "prefix (commands (step ev w)) (commands (run evs (step ev w)))" by (rule Cons.IH)
  finally show ?case by simp
qed

lemma tick_runs_due:
  assumes "t \<in> set (timers w)" and "due t \<le> clock w + 1"
  shows "\<exists>xs ys. commands (tick w) = commands w @ xs @ [issued (handler t)] @ ys"
proof -
  from assms have "t \<in> set (filter (\<lambda>t. due t \<le> clock w + 1) (timers w))" by simp
  then obtain as bs where "filter (\<lambda>t. due t \<le> clock w + 1) (timers w) = as @ t # bs"
    by (auto simp: in_set_conv_decomp)
  then have "commands (tick w) = commands w @ map (\<lambda>t. issued (handler t)) as @
      [issued (handler t)] @ map (\<lambda>t. issued (handler t)) bs"
    by (simp add: tick_eq)
  then show ?thesis by blast
qed

lemma idle_ticks:
  "\<forall>t \<in> set (timers w). clock w + d < due t \<Longrightarrow>
     run (replicate d Tick) w = w\<lparr>clock := clock w + d\<rparr>"
proof (induction d arbitrary: w)
  case 0
  show ?case by simp
next
  case (Suc d)
  from Suc.prems have f: "filter (\<lambda>t. due t \<le> clock w + 1) (timers w) = []"
    "filter (\<lambda>t. \<not> due t \<le> clock w + 1) (timers w) = timers w"
    by (auto simp: filter_empty_conv filter_id_conv)
  then have t: "tick w = w\<lparr>clock := clock w + 1\<rparr>"
    by (simp add: tick_eq)
  from Suc.prems have "\<forall>t \<in> set (timers (tick w)). clock (tick w) + d < due t"
    by (simp add: t)
  from Suc.IH [OF this] show ?case by (simp add: t)
qed


text \<open>
  C7. For every non-blank editor text, \<open>runPython\<close> executes
  \<open>workbench.action.terminal.new\<close> at once and does nothing else but register one timer,
  due 150 ms later, whose callback is the send. Whatever events follow (clicks, the
  title-bar actions, new texts, the passing of time), the timer stays registered while
  fewer than 150 ms have passed, so nothing cancels it and its callback has not run; the
  tick that completes the 150 ms runs the callback, which executes
  \<open>workbench.action.terminal.sendSequence\<close>; every command executed after the click
  follows the terminal creation; the callback sends unconditionally, with no check and no
  second timer. From a workbench with no other pending timer, time alone gives the
  creation before 150 ms and the creation followed by the send from then on.
\<close>

theorem runPython_delayed_send:
  fixes w :: workbench and now :: int
  defines "create \<equiv> \<lparr>commandId = js ''workbench.action.terminal.new'', args = []\<rparr>"
  defines "send \<equiv> \<lparr>commandId = js ''workbench.action.terminal.sendSequence'',
    args = [[(''text'', cleanCommand (tempFilePath now) (getValue (pane w)) @ js ''\<newline>'')]]\<rparr>"
  defines "t0 \<equiv> \<lparr>due = clock w + 150,
    handler = RunPythonTimeout (tempFilePath now) (getValue (pane w))\<rparr>"
  assumes "trim (getValue (pane w)) \<noteq> []"
  shows "runPython now w = w\<lparr>commands := commands w @ [create], timers := timers w @ [t0]\<rparr> \<and>
    (\<forall>evs. ticks evs < 150 \<longrightarrow> t0 \<in> set (timers (run evs (runPython now w)))) \<and>
    (\<forall>evs. ticks evs = 149 \<longrightarrow>
       (\<exists>xs ys. commands (run (evs @ [Tick]) (runPython now w)) =
          commands (run evs (runPython now w)) @ xs @ [send] @ ys)) \<and>
    (\<forall>evs. prefix (commands w @ [create]) (commands (run evs (runPython now w)))) \<and>
    (\<forall>w'. invoke (handler t0) w' = w'\<lparr>commands := commands w' @ [send]\<rparr>) \<and>
    (timers w = [] \<longrightarrow>
       (\<forall>d. commands (run (replicate d Tick) (runPython now w)) =
          commands w @ (if d < 150 then [create] else [create, send])))"
proof -
  let ?w = "runPython now w"
  have r: "?w = w\<lparr>commands := commands w @ [create], timers := timers w @ [t0]\<rparr>"
    by (simp add: runPython_nonblank [OF assms(4)] setTimeout_def executeCommand_def
        create_def t0_def)
  have i: "issued (handler t0) = send"
    by (simp add: t0_def send_def)
  have t0: "t0 \<in> set (timers ?w)" "due t0 = clock w + 150" "clock ?w = clock w"
    by (simp_all add: r t0_def)
  have pending: "t0 \<in> set (timers (run evs ?w))" if "ticks evs < 150" for evs
    using that t0 by (simp add: run_keeps_timer)
  have fires: "\<exists>xs ys. commands (run (evs @ [Tick]) ?w) =
      commands (run evs ?w) @ xs @ [send] @ ys" if "ticks evs = 149" for evs
  proof -
    from that have "t0 \<in> set (timers (run evs ?w))"
      by (simp add: pending)
    moreover from that have "due t0 \<le> clock (run evs ?w) + 1"
      by (simp add: run_clock t0)
    ultimately show ?thesis
      using tick_runs_due [of t0 "run evs ?w"] by (simp add: run_append i)
  qed
  have after: "prefix (commands w @ [create]) (commands (run evs ?w))" for evs
    using run_commands [of ?w evs] by (simp add: r)
  have uncond: "invoke (handler t0) w' = w'\<lparr>commands := commands w' @ [send]\<rparr>" for w'
    by (simp add: invoke_eq i)
  have quiet: "commands (run (replicate d Tick) ?w) =
      commands w @ (if d < 150 then [create] else [create, send])" if e: "timers w = []" for d
  proof (cases "d < 150")
    case True
    with e have "\<forall>t \<in> set (timers ?w). clock ?w + d < due t"
      by (simp add: r t0_def)
    from idle_ticks [OF this] True show ?thesis
      by (simp add: r)
  next
    case False
    define k where "k = d - 150"
    with False have d: "d = 149 + (1 + k)"
      by simp
    let ?w1 = "run (replicate 149 Tick) ?w"
    from e have "\<forall>t \<in> set (timers ?w). clock ?w + 149 < due t"
      by (simp add: r t0_def)
    from idle_ticks [OF this] have w1: "?w1 = ?w\<lparr>clock := clock w + 149\<rparr>"
      by (simp add: r)
    have w2: "tick ?w1 = w\<lparr>clock := clock w + 150, timers := [],
        commands := commands w @ [create, send]\<rparr>"
      unfolding w1 using e by (simp add: tick_eq r t0_def send_def)
    have "\<forall>t \<in> set (timers (tick ?w1)). clock (tick ?w1) + k < due t"
      by (simp add: w2)
    from idle_ticks [OF this] have "commands (run (replicate k Tick) (tick ?w1)) =
        commands w @ [create, send]"
      by (simp add: w2)
    moreover have "run (replicate d Tick) ?w = run (replicate k Tick) (tick ?w1)"
      unfolding d replicate_add run_append by simp
    ultimately show ?thesis using False by simp
  qed
  show ?thesis
    using r pending fires after uncond quiet by blast
qed

theorem runPython_delayed_send_witness:
  "trim (getValue (pane startup)) \<noteq> [] \<and> timers startup = [] \<and>
   ticks [ClearInput, Tick, Click 1700000000001, SaveContent] < 150 \<and>
   \<lparr>due = 150, handler = RunPythonTimeout (tempFilePath 1700000000000) (getValue rendered)\<rparr>
     \<in> set (timers (run [ClearInput, Tick, Click 1700000000001, SaveContent]
         (runPython 1700000000000 startup))) \<and>
   commands (run (replicate 149 Tick) (runPython 1700000000000 startup)) =
     [\<lparr>commandId = js ''workbench.action.terminal.new'', args = []\<rparr>] \<and>
   commands (run (replicate 150 Tick) (runPython 1700000000000 startup)) =
     [\<lparr>commandId = js ''workbench.action.terminal.new'', args = []\<rparr>,
      \<lparr>commandId = js ''workbench.action.terminal.sendSequence'',
       args = [[(''text'',
         cleanCommand (tempFilePath 1700000000000) (getValue rendered) @ js ''\<newline>'')]]\<rparr>]"
proof -
  let ?evs = "[ClearInput, Tick, Click 1700000000001, SaveContent]"
  have h: "trim (getValue (pane startup)) \<noteq> []"
    by (simp add: startup_def rendered_nonblank)
  have s: "timers startup = []" "commands startup = []" "pane startup = rendered"
    "clock startup = 0"
    by (simp_all add: startup_def)
  have t: "ticks ?evs < 150"
    by (simp add: ticks_def)
  note inst = runPython_delayed_send [OF h, of 1700000000000]
  from inst t have p: "\<lparr>due = clock startup + 150,
      handler = RunPythonTimeout (tempFilePath 1700000000000) (getValue (pane startup))\<rparr>
      \<in> set (timers (run ?evs (runPython 1700000000000 startup)))"
    by blast
  from inst have
    "\<forall>d. commands (run (replicate d Tick) (runPython 1700000000000 startup)) =
       commands startup @
       (if d < 150 then [\<lparr>commandId = js ''workbench.action.terminal.new'', args = []\<rparr>]
        else [\<lparr>commandId = js ''workbench.action.terminal.new'', args = []\<rparr>,
          \<lparr>commandId = js ''workbench.action.terminal.sendSequence'',
           args = [[(''text'', cleanCommand (tempFilePath 1700000000000)
             (getValue (pane startup)) @ js ''\<newline>'')]]\<rparr>])"
    using s(1) by blast
  from this [rule_format, of 149] this [rule_format, of 150] h s t p show ?thesis
    by simp
qed

end
